theory Spec2Isabelle
  imports Complex_Main
begin

section \<open>JavaScript values shared by the BFF models\<close>

text \<open>
  Request bodies, backend payloads and WebSocket payloads are JSON values. An object is
  an association list in property order; looking a property up gives \<open>None\<close> where
  JavaScript gives \<open>undefined\<close>.
\<close>

datatype json =
    JNull
  | JBool bool
  | JNum int
  | JStr string
  | JArr "json list"
  | JObj "(string \<times> json) list"

fun get_prop :: "json \<Rightarrow> string \<Rightarrow> json option" where
  "get_prop (JObj kvs) k = map_of kvs k"
| "get_prop _ k = None"

text \<open>JavaScript truthiness of a possibly undefined value (the operand of \<open>!\<close>, \<open>||\<close>, \<open>if\<close>).\<close>

fun truthy :: "json option \<Rightarrow> bool" where
  "truthy None = False"
| "truthy (Some JNull) = False"
| "truthy (Some (JBool b)) = b"
| "truthy (Some (JNum n)) = (n \<noteq> 0)"
| "truthy (Some (JStr s)) = (s \<noteq> [])"
| "truthy (Some (JArr xs)) = True"
| "truthy (Some (JObj kvs)) = True"

text \<open>\<open>a || b\<close> on possibly undefined values.\<close>

definition js_or :: "json option \<Rightarrow> json option \<Rightarrow> json option" where
  "js_or a b = (if truthy a then a else b)"

text \<open>\<open>a ?? b\<close>: the right operand only when the left one is \<open>null\<close> or \<open>undefined\<close>.\<close>

fun nullish :: "json option \<Rightarrow> json option \<Rightarrow> json option" where
  "nullish None b = b"
| "nullish (Some JNull) b = b"
| "nullish (Some v) b = Some v"

text \<open>\<open>a || b\<close> on strings that may be undefined: the empty string is falsy.\<close>

fun str_or :: "string option \<Rightarrow> string \<Rightarrow> string" where
  "str_or None d = d"
| "str_or (Some s) d = (if s = [] then d else s)"


section \<open>Request logger middleware (src/bff/src/middleware/requestLogger.ts)\<close>

text \<open>
  The Express request as far as the middleware reads and writes it. Node delivers header
  names in lower case. \<open>requestId\<close> and \<open>startTime\<close> are the two fields the module adds
  to \<open>Express.Request\<close>.
\<close>

record request =
  headers :: "(string \<times> string) list"
  req_method :: string
  originalUrl :: "string option"
  url :: string
  ip :: "string option"
  body :: json
  requestId :: "string option"
  startTime :: "nat option"

record response =
  res_headers :: "string \<rightharpoonup> string"
  statusCode :: nat

record request_log =
  rq_type :: string
  rq_requestId :: string
  rq_method :: string
  rq_url :: string
  rq_ip :: "string option"
  rq_userAgent :: "string option"
  rq_contentLength :: "string option"
  rq_timestamp :: string

record response_log =
  rs_type :: string
  rs_requestId :: string
  rs_method :: string
  rs_url :: string
  rs_statusCode :: nat
  rs_duration :: int
  rs_contentLength :: "string option"
  rs_timestamp :: string

text \<open>
  What one run of the middleware leaves behind: the mutated request and response, the
  entry it logs at once, and the replacement of \<open>res.end\<close>, which logs the response
  entry from the response and the clock at the time it is called.
\<close>

record logger_result =
  lr_req :: request
  lr_res :: response
  lr_log :: request_log
  lr_end :: "response \<Rightarrow> nat \<Rightarrow> string \<Rightarrow> response_log"

text \<open>
  \<open>uuid\<close> is the value \<open>uuidv4()\<close> returns if it is called; \<open>now\<close> and \<open>stamp\<close> are
  \<open>Date.now()\<close> and \<open>new Date().toISOString()\<close>.
\<close>

definition requestLogger :: "request \<Rightarrow> response \<Rightarrow> string \<Rightarrow> nat \<Rightarrow> string \<Rightarrow> logger_result" where
  "requestLogger req res uuid now stamp =
     (let rid = str_or (map_of (headers req) ''x-request-id'') uuid;
          req' = req\<lparr>requestId := Some rid, startTime := Some now\<rparr>;
          res' = res\<lparr>res_headers := (res_headers res)(''X-Request-ID'' \<mapsto> rid)\<rparr>;
          u = str_or (originalUrl req) (url req)
      in \<lparr>lr_req = req',
          lr_res = res',
          lr_log = \<lparr>rq_type = ''request'', rq_requestId = rid, rq_method = req_method req,
                    rq_url = u, rq_ip = ip req,
                    rq_userAgent = map_of (headers req) ''user-agent'',
                    rq_contentLength = map_of (headers req) ''content-length'',
                    rq_timestamp = stamp\<rparr>,
          lr_end = (\<lambda>r later stamp'.
                    \<lparr>rs_type = ''response'', rs_requestId = rid, rs_method = req_method req,
                     rs_url = u, rs_statusCode = statusCode r, rs_duration = int later - int now,
                     rs_contentLength = res_headers r ''content-length'',
                     rs_timestamp = stamp'\<rparr>)\<rparr>)"

section \<open>Error handler middleware (errorHandler.ts, src/unnamed/part_001)\<close>

text \<open>
  The response of a failed axios call, where there is one: its HTTP status and its body
  (\<open>None\<close> for an undefined body).
\<close>

record axios_response =
  ar_status :: nat
  ar_data :: "json option"

text \<open>
  The errors that reach the handler. An \<open>AxiosError\<close> is the only kind whose
  \<open>isAxiosError\<close> property is set; it carries its message, its \<open>code\<close> (such as
  \<open>ECONNREFUSED\<close>) and the response, if the backend answered. \<open>AppError\<close> is the
  class of the module: message, status, code, details. Any other \<open>Error\<close> is known by
  its \<open>name\<close> and message.
\<close>

datatype js_error =
    AxiosError string "string option" "axios_response option"
  | AppError string nat string "json option"
  | OtherError string string

text \<open>The constructor's defaults: \<open>status = 500\<close>, \<open>code = 'INTERNAL_ERROR'\<close>.\<close>

definition new_AppError :: "string \<Rightarrow> nat option \<Rightarrow> string option \<Rightarrow> json option \<Rightarrow> js_error" where
  "new_AppError message st code details =
     AppError message (case st of None \<Rightarrow> 500 | Some s \<Rightarrow> s)
       (case code of None \<Rightarrow> ''INTERNAL_ERROR'' | Some c \<Rightarrow> c) details"

record api_error =
  ae_status :: nat
  ae_message :: "json option"
  ae_details :: "json option"
  ae_code :: "string option"
  ae_timestamp :: string
  ae_path :: string

text \<open>What a route or the error handler sends: \<open>res.status(s).json(body)\<close>.\<close>

datatype reply =
    JsonReply nat json
  | ErrorReply nat api_error

fun reply_status :: "reply \<Rightarrow> nat" where
  "reply_status (JsonReply s b) = s"
| "reply_status (ErrorReply s b) = s"

fun reply_code :: "reply \<Rightarrow> string option" where
  "reply_code (JsonReply s b) = None"
| "reply_code (ErrorReply s b) = ae_code b"

fun reply_timestamp :: "reply \<Rightarrow> string option" where
  "reply_timestamp (JsonReply s b) = None"
| "reply_timestamp (ErrorReply s b) = Some (ae_timestamp b)"

fun reply_path :: "reply \<Rightarrow> string option" where
  "reply_path (JsonReply s b) = None"
| "reply_path (ErrorReply s b) = Some (ae_path b)"

text \<open>\<open>backendData?.key\<close>: undefined when the body is undefined or \<open>null\<close>.\<close>

fun opt_prop :: "json option \<Rightarrow> string \<Rightarrow> json option" where
  "opt_prop None k = None"
| "opt_prop (Some d) k = get_prop d k"

text \<open>\<open>axiosErr.response?.status || 502\<close>: a missing response and a status of 0 both give 502.\<close>

fun axios_status :: "axios_response option \<Rightarrow> nat" where
  "axios_status None = 502"
| "axios_status (Some r) = (if ar_status r = 0 then 502 else ar_status r)"

text \<open>
  \<open>stamp\<close> is \<open>new Date().toISOString()\<close>; \<open>production\<close> says whether
  \<open>process.env.NODE_ENV === 'production'\<close>. The branches come in the source's order.
\<close>

fun errorHandler :: "bool \<Rightarrow> string \<Rightarrow> js_error \<Rightarrow> request \<Rightarrow> reply" where
  "errorHandler production stamp (AxiosError message code resp) req =
     (let path = str_or (originalUrl req) (url req);
          status = axios_status resp;
          backendData = (case resp of None \<Rightarrow> None | Some r \<Rightarrow> ar_data r)
      in ErrorReply status
           \<lparr>ae_status = status,
            ae_message = js_or (js_or (opt_prop backendData ''detail'') (opt_prop backendData ''message''))
                           (Some (JStr ''Backend service error'')),
            ae_details = js_or (opt_prop backendData ''errors'') backendData,
            ae_code = Some ''BACKEND_ERROR'',
            ae_timestamp = stamp,
            ae_path = path\<rparr>)"
| "errorHandler production stamp (AppError message status code details) req =
     ErrorReply status
       \<lparr>ae_status = status, ae_message = Some (JStr message), ae_details = details,
        ae_code = Some code, ae_timestamp = stamp,
        ae_path = str_or (originalUrl req) (url req)\<rparr>"
| "errorHandler production stamp (OtherError name message) req =
     (if name = ''ValidationError'' then
        ErrorReply 400
          \<lparr>ae_status = 400, ae_message = Some (JStr ''Validation failed''),
           ae_details = Some (JStr message), ae_code = Some ''VALIDATION_ERROR'',
           ae_timestamp = stamp, ae_path = str_or (originalUrl req) (url req)\<rparr>
      else
        ErrorReply 500
          \<lparr>ae_status = 500,
           ae_message = Some (JStr (if production then ''Internal server error'' else message)),
           ae_details = None, ae_code = Some ''INTERNAL_ERROR'',
           ae_timestamp = stamp, ae_path = str_or (originalUrl req) (url req)\<rparr>)"


section \<open>MCP proxy routes (src/bff/src/routes/mcp.ts)\<close>

text \<open>
  A POST through the \<open>mcpClient\<close> axios instance: the path under the MCP server's base
  URL and the JSON payload. An axios call either resolves with a response or rejects with
  an error; the MCP server and the network are a parameter \<open>mcp\<close> of every route.
\<close>

record mcp_request =
  mq_path :: string
  mq_payload :: json

datatype axios_outcome =
    Resolved axios_response
  | Rejected js_error

text \<open>How a route handler ends: it sends a response itself, or hands an error to \<open>next\<close>.\<close>

datatype handler_end =
    Sent reply
  | Next js_error

text \<open>A route's run: the calls it made to the MCP server, in order, and how it ended.\<close>

record route_run =
  rr_calls :: "mcp_request list"
  rr_end :: handler_end

definition STATIC_TOOLS :: "json list" where
  "STATIC_TOOLS =
    [JObj [(''name'', JStr ''research_customer''),
           (''description'', JStr ''Look up customer profile from the database.''),
           (''parameters'', JObj [(''name'', JObj [(''type'', JStr ''string''),
              (''description'', JStr ''Customer or company name'')])])],
     JObj [(''name'', JStr ''initial_pitch_prompt''),
           (''description'', JStr ''Generate a structured pitch prompt incorporating customer info and tone.''),
           (''parameters'', JObj [(''customer_name'', JObj [(''type'', JStr ''string'')]),
              (''customer_info'', JObj [(''type'', JStr ''string'')]),
              (''tone'', JObj [(''type'', JStr ''string''), (''default'', JStr ''professional'')])])],
     JObj [(''name'', JStr ''score_pitch''),
           (''description'', JStr ''Score a sales pitch on persuasiveness, clarity, and relevance.''),
           (''parameters'', JObj [(''pitch'', JObj [(''type'', JStr ''string'')])])],
     JObj [(''name'', JStr ''refine_pitch''),
           (''description'', JStr ''Rewrite a sales pitch incorporating specific feedback.''),
           (''parameters'', JObj [(''pitch'', JObj [(''type'', JStr ''string'')]),
              (''feedback'', JObj [(''type'', JStr ''string'')])])],
     JObj [(''name'', JStr ''analyze_customer_sentiment''),
           (''description'', JStr ''Analyze customer interaction history to determine sentiment and engagement.''),
           (''parameters'', JObj [(''customer_name'', JObj [(''type'', JStr ''string'')]),
              (''interaction_history'', JObj [(''type'', JStr ''string'')])])],
     JObj [(''name'', JStr ''generate_subject_line''),
           (''description'', JStr ''Generate compelling email subject lines for a sales pitch.''),
           (''parameters'', JObj [(''pitch'', JObj [(''type'', JStr ''string'')]),
              (''style'', JObj [(''type'', JStr ''string''), (''default'', JStr ''professional'')])])],
     JObj [(''name'', JStr ''competitive_positioning''),
           (''description'', JStr ''Generate a competitive positioning analysis for the customer's industry.''),
           (''parameters'', JObj [(''customer_name'', JObj [(''type'', JStr ''string'')]),
              (''industry'', JObj [(''type'', JStr ''string'')])])],
     JObj [(''name'', JStr ''pitch_ab_variants''),
           (''description'', JStr ''Generate A/B test variants of a sales pitch.''),
           (''parameters'', JObj [(''pitch'', JObj [(''type'', JStr ''string'')]),
              (''num_variants'', JObj [(''type'', JStr ''number''), (''default'', JNum 2)])])],
     JObj [(''name'', JStr ''calculate_lead_score''),
           (''description'', JStr ''Calculate a lead score (0-100) based on customer data.''),
           (''parameters'', JObj [(''customer_data'', JObj [(''type'', JStr ''string'')])])],
     JObj [(''name'', JStr ''generate_followup_sequence''),
           (''description'', JStr ''Generate a follow-up email sequence after an initial sales pitch.''),
           (''parameters'', JObj [(''pitch'', JObj [(''type'', JStr ''string'')]),
              (''customer_name'', JObj [(''type'', JStr ''string'')]),
              (''num_emails'', JObj [(''type'', JStr ''number''), (''default'', JNum 3)])])]]"

text \<open>The JSON-RPC request that lists the tools.\<close>

definition tools_list_request :: mcp_request where
  "tools_list_request =
     \<lparr>mq_path = ''/'',
      mq_payload = JObj [(''jsonrpc'', JStr ''2.0''), (''method'', JStr ''tools/list''),
                         (''id'', JStr ''1'')]\<rparr>"

text \<open>\<open>a ?? b\<close> where the right operand is always defined.\<close>

fun nullish_or :: "json option \<Rightarrow> json \<Rightarrow> json" where
  "nullish_or None d = d"
| "nullish_or (Some JNull) d = d"
| "nullish_or (Some v) d = v"

text \<open>
  \<open>response.data?.result?.tools ?? response.data?.tools ?? STATIC_TOOLS\<close>, sent with
  \<open>res.json\<close>, which leaves the status at Express's default 200.
\<close>

definition listed_tools :: "json option \<Rightarrow> json" where
  "listed_tools data =
     nullish_or (nullish (opt_prop (opt_prop data ''result'') ''tools'') (opt_prop data ''tools''))
       (JArr STATIC_TOOLS)"

text \<open>GET /api/v1/mcp/tools.\<close>

definition tools_get :: "(mcp_request \<Rightarrow> axios_outcome) \<Rightarrow> request \<Rightarrow> route_run" where
  "tools_get mcp req =
     \<lparr>rr_calls = [tools_list_request],
      rr_end = (case mcp tools_list_request of
                  Resolved r \<Rightarrow> Sent (JsonReply 200 (listed_tools (ar_data r)))
                | Rejected e \<Rightarrow> Sent (JsonReply 200 (JArr STATIC_TOOLS)))\<rparr>"

text \<open>POST /api/v1/mcp/tools: the same handler body, registered for POST.\<close>

definition tools_post :: "(mcp_request \<Rightarrow> axios_outcome) \<Rightarrow> request \<Rightarrow> route_run" where
  "tools_post mcp req =
     \<lparr>rr_calls = [tools_list_request],
      rr_end = (case mcp tools_list_request of
                  Resolved r \<Rightarrow> Sent (JsonReply 200 (listed_tools (ar_data r)))
                | Rejected e \<Rightarrow> Sent (JsonReply 200 (JArr STATIC_TOOLS)))\<rparr>"

text \<open>An object literal drops a property whose value is undefined when it is serialised.\<close>

fun field :: "string \<Rightarrow> json option \<Rightarrow> (string \<times> json) list" where
  "field k None = []"
| "field k (Some v) = [(k, v)]"

text \<open>The JSON-RPC request that calls a tool.\<close>

definition tools_call_request :: "json option \<Rightarrow> json option \<Rightarrow> mcp_request" where
  "tools_call_request name args =
     \<lparr>mq_path = ''/'',
      mq_payload = JObj [(''jsonrpc'', JStr ''2.0''), (''method'', JStr ''tools/call''),
                         (''params'', JObj (field ''name'' name @ field ''arguments'' args)),
                         (''id'', JStr ''2'')]\<rparr>"

text \<open>
  The catch block of both execute routes: a refused connection becomes an \<open>AppError\<close>
  503 \<open>MCP_UNAVAILABLE\<close>; every other error is passed on as it is.
\<close>

fun execute_catch :: "js_error \<Rightarrow> handler_end" where
  "execute_catch (AxiosError m code resp) =
     (if code = Some ''ECONNREFUSED''
      then Next (new_AppError ''MCP server is unavailable'' (Some 503) (Some ''MCP_UNAVAILABLE'') None)
      else Next (AxiosError m code resp))"
| "execute_catch e = Next e"

text \<open>\<open>res.json({ result })\<close> with \<open>result = response.data?.result ?? response.data\<close>.\<close>

definition execute_reply :: "axios_response \<Rightarrow> handler_end" where
  "execute_reply r =
     Sent (JsonReply 200 (JObj (field ''result'' (nullish (opt_prop (ar_data r) ''result'') (ar_data r)))))"

text \<open>POST /api/v1/mcp/tools/execute: the body is \<open>{ tool_name, arguments }\<close>.\<close>

definition tools_execute :: "(mcp_request \<Rightarrow> axios_outcome) \<Rightarrow> request \<Rightarrow> route_run" where
  "tools_execute mcp req =
     (let tool_name = get_prop (body req) ''tool_name'';
          args = get_prop (body req) ''arguments''
      in if \<not> truthy tool_name then
           \<lparr>rr_calls = [],
            rr_end = Next (new_AppError ''tool_name is required'' (Some 400) (Some ''VALIDATION_ERROR'') None)\<rparr>
         else
           (let call = tools_call_request tool_name (js_or args (Some (JObj [])))
            in \<lparr>rr_calls = [call],
                rr_end = (case mcp call of
                            Resolved r \<Rightarrow> execute_reply r
                          | Rejected e \<Rightarrow> execute_catch e)\<rparr>))"

text \<open>
  POST /api/v1/mcp/execute, the legacy route: the name is \<open>toolName || tool_name\<close>, the
  arguments are \<open>parameters || arguments || {}\<close>.
\<close>

definition execute_legacy :: "(mcp_request \<Rightarrow> axios_outcome) \<Rightarrow> request \<Rightarrow> route_run" where
  "execute_legacy mcp req =
     (let name = js_or (get_prop (body req) ''toolName'') (get_prop (body req) ''tool_name'');
          parameters = get_prop (body req) ''parameters'';
          args = get_prop (body req) ''arguments''
      in if \<not> truthy name then
           \<lparr>rr_calls = [],
            rr_end = Next (new_AppError ''toolName or tool_name is required'' (Some 400)
                             (Some ''VALIDATION_ERROR'') None)\<rparr>
         else
           (let call = tools_call_request name (js_or (js_or parameters args) (Some (JObj [])))
            in \<lparr>rr_calls = [call],
                rr_end = (case mcp call of
                            Resolved r \<Rightarrow> execute_reply r
                          | Rejected e \<Rightarrow> execute_catch e)\<rparr>))"

text \<open>
  What the client receives: the route's own response, or, after \<open>next(error)\<close>, the
  response of the error handler, which the application mounts last.
\<close>

fun respond :: "bool \<Rightarrow> string \<Rightarrow> request \<Rightarrow> handler_end \<Rightarrow> reply" where
  "respond production stamp req (Sent r) = r"
| "respond production stamp req (Next e) = errorHandler production stamp e req"


section \<open>WebSocket service (src/bff/src/services/websocket.ts)\<close>

text \<open>The four values of a socket's \<open>readyState\<close>.\<close>

datatype ready_state = CONNECTING | OPEN | CLOSING | CLOSED

record WSMessage =
  ws_type :: string
  ws_channel :: string
  ws_payload :: json
  ws_timestamp :: string

text \<open>
  One entry of the service's \<open>clients\<close> map: the client's id, the state of its socket
  and the set of channels it subscribed to. The map is iterated in insertion order, so
  the service's clients are a list.
\<close>

record ClientSubscription =
  cs_id :: string
  cs_readyState :: ready_state
  cs_channels :: "string set"




text \<open>\<open>sendToClient(ws, message)\<close>: one guarded send.\<close>

definition sendToClient :: "(ClientSubscription \<Rightarrow> string \<Rightarrow> js_error option) \<Rightarrow> (WSMessage \<Rightarrow> string)
    \<Rightarrow> ClientSubscription \<Rightarrow> WSMessage \<Rightarrow> js_error + (string \<times> string) list" where
  "sendToClient send stringify client message =
     (if cs_readyState client = OPEN then
        (case send client (stringify message) of
           Some e \<Rightarrow> Inl e
         | None \<Rightarrow> Inr [(cs_id client, stringify message)])
      else Inr [])"


section \<open>Configuration (src/bff/src/config.ts)\<close>




section \<open>Backend proxy (src/bff/src/services/backendProxy.ts)\<close>




section \<open>Agents routes: the two implementations of POST /orchestrate\<close>









section \<open>MCP proxy routes: the second implementation (src/unnamed/part_003)\<close>




section \<open>Frontend types (src/frontend/src/types/index.ts)\<close>




text \<open>
  A JavaScript number in exact arithmetic: \<open>Some q\<close> is the finite number \<open>q\<close>,
  \<open>None\<close> is a value for which \<open>Number.isFinite\<close> is false (\<open>NaN\<close>, an infinity, or
  a missing field read as a number).
\<close>

type_synonym number = "rat option"

record PitchScore =
  ps_id :: "string option"
  ps_pitch :: "string option"
  persuasiveness :: number
  clarity :: number
  relevance :: number
  personalization :: number
  call_to_action :: number
  overall_score :: number
  feedback :: string
  suggestions :: "string list"
  scored_at :: "string option"


section \<open>Score display (src/frontend/src/components/common/ScoreDisplay.tsx)\<close>









section \<open>Score cells of the dashboards (src/unnamed/part_005, src/unnamed/part_004)\<close>





section \<open>Score conversion of the pitch generator page (src/frontend/src/pages/pitches/PitchDetail.tsx, renderStep3)\<close>







section \<open>Orchestrator quality gate (specification, section 4.1; its code is not among the sources)\<close>

text \<open>
  Modelled from the spec: the Pitch entity of section 3, as far as the quality gate needs
  it: content, version (starting at 1) and parent (the pitch it refines, absent for a
  first draft). The orchestrator is part of the backend, whose code is missing.
\<close>

datatype pitch = Pitch (content: string) (version: nat) (parent: "pitch option")

text \<open>
  Modelled from the spec: the Score of section 3 as the quality gate reads it: the derived
  overall value, the free-text feedback and the list of suggestions.
\<close>

record Score =
  sc_overall :: rat
  sc_feedback :: string
  sc_suggestions :: "string list"

text \<open>
  Modelled from the spec: the run configuration of section 4.1, \<open>scoreThreshold\<close> with
  range (0,1] and \<open>maxIterations\<close>, at least 0.
\<close>

record run_config =
  scoreThreshold :: rat
  maxIterations :: int

text \<open>Modelled from the spec: the terminal states of a run, section 3.\<close>

datatype terminal_state = Completed | Failed | Cancelled

text \<open>Modelled from the spec: the error kind of section 7 that a run's configuration can raise.\<close>

datatype run_error = InputInvalid

text \<open>
  Modelled from the spec: what a run returns: its terminal state, the final pitch with
  its score when there is one, the number of refinements made, and the error of a failed
  run.
\<close>

record run_result =
  terminal :: terminal_state
  final_pitch :: "(pitch \<times> Score) option"
  refinements :: nat
  run_failure :: "run_error option"

text \<open>
  Modelled from the spec: a refinement creates a new pitch, with the version of its
  parent plus one and the parent set to the pitch it refines (invariant of section 3).
\<close>

definition refined :: "pitch \<Rightarrow> string \<Rightarrow> pitch" where
  "refined p new_content = Pitch new_content (version p + 1) (Some p)"

text \<open>
  Modelled from the spec: the best-scoring pitch seen so far after one more pitch has
  been scored; on an exact tie the later pitch is preferred.
\<close>

fun better :: "(pitch \<times> Score) option \<Rightarrow> pitch \<times> Score \<Rightarrow> pitch \<times> Score" where
  "better None cur = cur"
| "better (Some b) cur = (if sc_overall (snd b) \<le> sc_overall (snd cur) then cur else b)"

text \<open>
  Modelled from the spec: the quality gate algorithm of section 4.1. \<open>score\<close> and
  \<open>refine\<close> are the two agent capabilities, here calls that succeed; \<open>refine\<close> is given
  the pitch and its Score (feedback and suggestions) and returns the new content.
  After each scoring: at or above the threshold the loop is left and the pitch is
  finalized; below it and with \<open>iteration < maxIterations\<close> the pitch is refined and
  scored again; below it with the iterations used up the loop is left all the same and
  the best pitch seen is finalized.
\<close>

function quality_gate :: "run_config \<Rightarrow> (pitch \<Rightarrow> Score) \<Rightarrow> (pitch \<Rightarrow> Score \<Rightarrow> string)
    \<Rightarrow> nat \<Rightarrow> pitch \<Rightarrow> (pitch \<times> Score) option \<Rightarrow> run_result" where
  "quality_gate cfg score refine iteration p best =
     (let s = score p; best' = better best (p, s)
      in if scoreThreshold cfg \<le> sc_overall s then
           \<lparr>terminal = Completed, final_pitch = Some (p, s), refinements = iteration,
            run_failure = None\<rparr>
         else if int iteration < maxIterations cfg then
           quality_gate cfg score refine (Suc iteration) (refined p (refine p s)) (Some best')
         else
           \<lparr>terminal = Completed, final_pitch = Some best', refinements = iteration,
            run_failure = None\<rparr>)"
  by pat_completeness auto
termination
  by (relation "measure (\<lambda>(cfg, score, refine, iteration, p, best). nat (maxIterations cfg) - iteration)")
     auto

text \<open>
  Modelled from the spec: a run from the first draft on: a configuration out of range
  fails the run with \<open>InputInvalid\<close>; otherwise the draft is version 1 without a parent
  and enters the quality gate at iteration 0.
\<close>

definition Run :: "run_config \<Rightarrow> (pitch \<Rightarrow> Score) \<Rightarrow> (pitch \<Rightarrow> Score \<Rightarrow> string) \<Rightarrow> string \<Rightarrow> run_result" where
  "Run cfg score refine draft =
     (if 0 < scoreThreshold cfg \<and> scoreThreshold cfg \<le> 1 \<and> 0 \<le> maxIterations cfg then
        quality_gate cfg score refine 0 (Pitch draft 1 None) None
      else
        \<lparr>terminal = Failed, final_pitch = None, refinements = 0,
         run_failure = Some InputInvalid\<rparr>)"

text \<open>
  Modelled from the spec: the candidates of a run: the first draft, and after it each
  refinement of the candidate before, made with that candidate's Score.
\<close>

fun candidate :: "(pitch \<Rightarrow> Score) \<Rightarrow> (pitch \<Rightarrow> Score \<Rightarrow> string) \<Rightarrow> string \<Rightarrow> nat \<Rightarrow> pitch" where
  "candidate score refine draft 0 = Pitch draft 1 None"
| "candidate score refine draft (Suc i) =
     refined (candidate score refine draft i)
       (refine (candidate score refine draft i) (score (candidate score refine draft i)))"


section \<open>Request logger: request ids\<close>

text \<open>
  C10, as stated, at a request whose \<open>x-request-id\<close> header is present with an empty
  value: the response header is the generated UUID, not the header's value.
\<close>

theorem C10_empty_header_counterexample:
  "res_headers (lr_res (requestLogger
      \<lparr>headers = [(''x-request-id'', '''')], req_method = ''GET'', originalUrl = Some ''/health'',
       url = ''/health'', ip = None, body = JNull, requestId = None, startTime = None\<rparr>
      \<lparr>res_headers = Map.empty, statusCode = 200\<rparr>
      ''9b2f6c1e-0000-4000-8000-000000000001'' 0 ''t0'')) ''X-Request-ID''
   \<noteq> map_of (headers
      \<lparr>headers = [(''x-request-id'', '''')], req_method = ''GET'', originalUrl = Some ''/health'',
       url = ''/health'', ip = None, body = JNull, requestId = None, startTime = None\<rparr>)
      ''x-request-id''"
  by (simp add: requestLogger_def Let_def)

text \<open>
  C10, amended: the response carries an \<open>X-Request-ID\<close> header equal to the request's
  \<open>x-request-id\<close> header when that header is present and not empty, and equal to the
  freshly generated UUID otherwise; the same id is stored on the request object, written
  in the request log entry, and written in the response log entry whenever and with
  whatever response \<open>res.end\<close> is later called.
\<close>

theorem C10_request_id:
  "res_headers (lr_res (requestLogger req res uuid now stamp)) ''X-Request-ID''
     = Some (case map_of (headers req) ''x-request-id'' of
               None \<Rightarrow> uuid | Some v \<Rightarrow> if v = [] then uuid else v)
   \<and> requestId (lr_req (requestLogger req res uuid now stamp))
     = res_headers (lr_res (requestLogger req res uuid now stamp)) ''X-Request-ID''
   \<and> Some (rq_requestId (lr_log (requestLogger req res uuid now stamp)))
     = res_headers (lr_res (requestLogger req res uuid now stamp)) ''X-Request-ID''
   \<and> Some (rs_requestId (lr_end (requestLogger req res uuid now stamp) r later stamp'))
     = res_headers (lr_res (requestLogger req res uuid now stamp)) ''X-Request-ID''"
  by (cases "map_of (headers req) ''x-request-id''")
     (simp_all add: requestLogger_def Let_def)


section \<open>Error handler: status, code, timestamp and path\<close>

text \<open>
  C8, as stated, at an error that is neither an axios error nor an \<open>AppError\<close> but is
  named \<open>ValidationError\<close>: the handler answers 400 with code \<open>VALIDATION_ERROR\<close>,
  not 500 with \<open>INTERNAL_ERROR\<close>.
\<close>

theorem C8_validation_error_counterexample:
  "reply_status (errorHandler False ''2024-01-01T00:00:00.000Z''
      (OtherError ''ValidationError'' ''name is required'')
      \<lparr>headers = [], req_method = ''POST'', originalUrl = Some ''/api/v1/customers'',
       url = ''/'', ip = None, body = JObj [], requestId = None, startTime = None\<rparr>) = 400
   \<and> reply_code (errorHandler False ''2024-01-01T00:00:00.000Z''
      (OtherError ''ValidationError'' ''name is required'')
      \<lparr>headers = [], req_method = ''POST'', originalUrl = Some ''/api/v1/customers'',
       url = ''/'', ip = None, body = JObj [], requestId = None, startTime = None\<rparr>)
     = Some ''VALIDATION_ERROR''"
  by simp

text \<open>
  C8, amended: for every error reaching the handler: an axios error gets the backend
  response's status when a backend response exists and its status is not 0, and 502
  otherwise, with code \<open>BACKEND_ERROR\<close>; an \<open>AppError\<close> gets its own status and code;
  any other error named \<open>ValidationError\<close> gets 400 with code \<open>VALIDATION_ERROR\<close>;
  every remaining error gets 500 with code \<open>INTERNAL_ERROR\<close>; and in every case the
  JSON error body repeats the status and carries the timestamp and the request path
  (\<open>originalUrl\<close>, or \<open>url\<close> when that is missing or empty).
\<close>

theorem C8_error_handler:
  "reply_status (errorHandler production stamp err req) =
     (case err of
        AxiosError m c resp \<Rightarrow>
          (case resp of None \<Rightarrow> 502 | Some r \<Rightarrow> if ar_status r = 0 then 502 else ar_status r)
      | AppError m s c d \<Rightarrow> s
      | OtherError n m \<Rightarrow> if n = ''ValidationError'' then 400 else 500)
   \<and> reply_code (errorHandler production stamp err req) =
     (case err of
        AxiosError m c resp \<Rightarrow> Some ''BACKEND_ERROR''
      | AppError m s c d \<Rightarrow> Some c
      | OtherError n m \<Rightarrow>
          if n = ''ValidationError'' then Some ''VALIDATION_ERROR'' else Some ''INTERNAL_ERROR'')
   \<and> reply_timestamp (errorHandler production stamp err req) = Some stamp
   \<and> reply_path (errorHandler production stamp err req)
     = Some (str_or (originalUrl req) (url req))
   \<and> (\<exists>b. errorHandler production stamp err req
          = ErrorReply (reply_status (errorHandler production stamp err req)) b
        \<and> ae_status b = reply_status (errorHandler production stamp err req))"
proof (cases err)
  case (AxiosError m c resp)
  then show ?thesis by (cases resp) (simp_all add: Let_def)
next
  case (AppError m s c d)
  then show ?thesis by simp
next
  case (OtherError n m)
  then show ?thesis by simp
qed


section \<open>MCP proxy routes: fallback, validation, unavailable server\<close>

lemma tools_get_status:
  "reply_status (respond production stamp req (rr_end (tools_get mcp req))) = 200"
  by (cases "mcp tools_list_request") (simp_all add: tools_get_def)

lemma tools_post_status:
  "reply_status (respond production stamp req (rr_end (tools_post mcp req))) = 200"
  by (cases "mcp tools_list_request") (simp_all add: tools_post_def)

lemma tools_fallback:
  assumes "mcp tools_list_request = Rejected e"
  shows "respond production stamp req (rr_end (tools_get mcp req)) = JsonReply 200 (JArr STATIC_TOOLS)"
    and "respond production stamp req (rr_end (tools_post mcp req)) = JsonReply 200 (JArr STATIC_TOOLS)"
  using assms by (simp_all add: tools_get_def tools_post_def)

lemma STATIC_TOOLS_length: "length STATIC_TOOLS = 10"
  by (simp add: STATIC_TOOLS_def)

lemma tools_execute_missing_name:
  assumes "\<not> truthy (get_prop (body req) ''tool_name'')"
  shows "rr_calls (tools_execute mcp req) = []"
    and "rr_end (tools_execute mcp req)
         = Next (AppError ''tool_name is required'' 400 ''VALIDATION_ERROR'' None)"
  using assms by (simp_all add: tools_execute_def new_AppError_def Let_def)

lemma execute_legacy_missing_name:
  assumes "\<not> truthy (js_or (get_prop (body req) ''toolName'') (get_prop (body req) ''tool_name''))"
  shows "rr_calls (execute_legacy mcp req) = []"
    and "rr_end (execute_legacy mcp req)
         = Next (AppError ''toolName or tool_name is required'' 400 ''VALIDATION_ERROR'' None)"
  using assms by (simp_all add: execute_legacy_def new_AppError_def Let_def)

lemma tools_execute_refused:
  assumes t: "truthy (get_prop (body req) ''tool_name'')"
    and a: "\<forall>c \<in> set (rr_calls (tools_execute mcp req)).
              mcp c = Rejected (AxiosError m (Some ''ECONNREFUSED'') resp)"
  shows "rr_end (tools_execute mcp req)
         = Next (AppError ''MCP server is unavailable'' 503 ''MCP_UNAVAILABLE'' None)"
proof -
  define call where "call = tools_call_request (get_prop (body req) ''tool_name'')
      (js_or (get_prop (body req) ''arguments'') (Some (JObj [])))"
  have calls: "rr_calls (tools_execute mcp req) = [call]"
    using t by (simp add: tools_execute_def Let_def call_def)
  have rej: "mcp call = Rejected (AxiosError m (Some ''ECONNREFUSED'') resp)"
    using a calls by simp
  show ?thesis
    using t rej by (simp add: tools_execute_def Let_def call_def[symmetric] new_AppError_def)
qed

lemma execute_legacy_refused:
  assumes t: "truthy (js_or (get_prop (body req) ''toolName'') (get_prop (body req) ''tool_name''))"
    and a: "\<forall>c \<in> set (rr_calls (execute_legacy mcp req)).
              mcp c = Rejected (AxiosError m (Some ''ECONNREFUSED'') resp)"
  shows "rr_end (execute_legacy mcp req)
         = Next (AppError ''MCP server is unavailable'' 503 ''MCP_UNAVAILABLE'' None)"
proof -
  define call where "call = tools_call_request
      (js_or (get_prop (body req) ''toolName'') (get_prop (body req) ''tool_name''))
      (js_or (js_or (get_prop (body req) ''parameters'') (get_prop (body req) ''arguments''))
         (Some (JObj [])))"
  have calls: "rr_calls (execute_legacy mcp req) = [call]"
    using t by (simp add: execute_legacy_def Let_def call_def)
  have rej: "mcp call = Rejected (AxiosError m (Some ''ECONNREFUSED'') resp)"
    using a calls by simp
  show ?thesis
    using t rej by (simp add: execute_legacy_def Let_def call_def[symmetric] new_AppError_def)
qed

text \<open>
  C9: listing the tools, by GET or by POST, always answers 200, and when the call to the
  MCP server fails, whatever the error, the answer is the static list, which has 10
  tools; executing a tool with a missing (or otherwise falsy) tool name answers 400 with
  code \<open>VALIDATION_ERROR\<close> and makes no call to the MCP server; and when the call made
  during a tool execution is refused (\<open>ECONNREFUSED\<close>), the answer is 503 with code
  \<open>MCP_UNAVAILABLE\<close>. Both execute routes behave so.
\<close>

theorem C9_mcp_routes:
  "reply_status (respond production stamp req (rr_end (tools_get mcp req))) = 200
   \<and> reply_status (respond production stamp req (rr_end (tools_post mcp req))) = 200
   \<and> (mcp tools_list_request = Rejected e \<longrightarrow>
        respond production stamp req (rr_end (tools_get mcp req)) = JsonReply 200 (JArr STATIC_TOOLS)
        \<and> respond production stamp req (rr_end (tools_post mcp req)) = JsonReply 200 (JArr STATIC_TOOLS))
   \<and> length STATIC_TOOLS = 10
   \<and> (\<not> truthy (get_prop (body req) ''tool_name'') \<longrightarrow>
        rr_calls (tools_execute mcp req) = []
        \<and> reply_status (respond production stamp req (rr_end (tools_execute mcp req))) = 400
        \<and> reply_code (respond production stamp req (rr_end (tools_execute mcp req)))
            = Some ''VALIDATION_ERROR'')
   \<and> (\<not> truthy (js_or (get_prop (body req) ''toolName'') (get_prop (body req) ''tool_name'')) \<longrightarrow>
        rr_calls (execute_legacy mcp req) = []
        \<and> reply_status (respond production stamp req (rr_end (execute_legacy mcp req))) = 400
        \<and> reply_code (respond production stamp req (rr_end (execute_legacy mcp req)))
            = Some ''VALIDATION_ERROR'')
   \<and> (truthy (get_prop (body req) ''tool_name'')
        \<and> (\<forall>c \<in> set (rr_calls (tools_execute mcp req)).
              mcp c = Rejected (AxiosError m (Some ''ECONNREFUSED'') resp)) \<longrightarrow>
        reply_status (respond production stamp req (rr_end (tools_execute mcp req))) = 503
        \<and> reply_code (respond production stamp req (rr_end (tools_execute mcp req)))
            = Some ''MCP_UNAVAILABLE'')
   \<and> (truthy (js_or (get_prop (body req) ''toolName'') (get_prop (body req) ''tool_name''))
        \<and> (\<forall>c \<in> set (rr_calls (execute_legacy mcp req)).
              mcp c = Rejected (AxiosError m (Some ''ECONNREFUSED'') resp)) \<longrightarrow>
        reply_status (respond production stamp req (rr_end (execute_legacy mcp req))) = 503
        \<and> reply_code (respond production stamp req (rr_end (execute_legacy mcp req)))
            = Some ''MCP_UNAVAILABLE'')"
proof (intro conjI impI)
  show "reply_status (respond production stamp req (rr_end (tools_get mcp req))) = 200"
    by (rule tools_get_status)
  show "reply_status (respond production stamp req (rr_end (tools_post mcp req))) = 200"
    by (rule tools_post_status)
  show "length STATIC_TOOLS = 10"
    by (rule STATIC_TOOLS_length)
next
  assume "mcp tools_list_request = Rejected e"
  then show "respond production stamp req (rr_end (tools_get mcp req)) = JsonReply 200 (JArr STATIC_TOOLS)"
    and "respond production stamp req (rr_end (tools_post mcp req)) = JsonReply 200 (JArr STATIC_TOOLS)"
    by (rule tools_fallback)+
next
  assume h: "\<not> truthy (get_prop (body req) ''tool_name'')"
  show "rr_calls (tools_execute mcp req) = []"
    by (rule tools_execute_missing_name(1)[OF h])
  show "reply_status (respond production stamp req (rr_end (tools_execute mcp req))) = 400"
    by (simp add: tools_execute_missing_name(2)[OF h])
  show "reply_code (respond production stamp req (rr_end (tools_execute mcp req)))
            = Some ''VALIDATION_ERROR''"
    by (simp add: tools_execute_missing_name(2)[OF h])
next
  assume h: "\<not> truthy (js_or (get_prop (body req) ''toolName'') (get_prop (body req) ''tool_name''))"
  show "rr_calls (execute_legacy mcp req) = []"
    by (rule execute_legacy_missing_name(1)[OF h])
  show "reply_status (respond production stamp req (rr_end (execute_legacy mcp req))) = 400"
    by (simp add: execute_legacy_missing_name(2)[OF h])
  show "reply_code (respond production stamp req (rr_end (execute_legacy mcp req)))
            = Some ''VALIDATION_ERROR''"
    by (simp add: execute_legacy_missing_name(2)[OF h])
next
  assume h: "truthy (get_prop (body req) ''tool_name'')
        \<and> (\<forall>c \<in> set (rr_calls (tools_execute mcp req)).
              mcp c = Rejected (AxiosError m (Some ''ECONNREFUSED'') resp))"
  have e: "rr_end (tools_execute mcp req)
         = Next (AppError ''MCP server is unavailable'' 503 ''MCP_UNAVAILABLE'' None)"
    using h tools_execute_refused by blast
  show "reply_status (respond production stamp req (rr_end (tools_execute mcp req))) = 503"
    by (simp add: e)
  show "reply_code (respond production stamp req (rr_end (tools_execute mcp req)))
            = Some ''MCP_UNAVAILABLE''"
    by (simp add: e)
next
  assume h: "truthy (js_or (get_prop (body req) ''toolName'') (get_prop (body req) ''tool_name''))
        \<and> (\<forall>c \<in> set (rr_calls (execute_legacy mcp req)).
              mcp c = Rejected (AxiosError m (Some ''ECONNREFUSED'') resp))"
  have e: "rr_end (execute_legacy mcp req)
         = Next (AppError ''MCP server is unavailable'' 503 ''MCP_UNAVAILABLE'' None)"
    using h execute_legacy_refused by blast
  show "reply_status (respond production stamp req (rr_end (execute_legacy mcp req))) = 503"
    by (simp add: e)
  show "reply_code (respond production stamp req (rr_end (execute_legacy mcp req)))
            = Some ''MCP_UNAVAILABLE''"
    by (simp add: e)
qed

text \<open>
  The theorem at concrete requests: a request without a tool name, and a request for
  \<open>score_pitch\<close> against an MCP server that refuses every connection.
\<close>

theorem C9_mcp_routes_witness:
  "rr_calls (tools_execute (\<lambda>c. Rejected (AxiosError ''connect ECONNREFUSED'' (Some ''ECONNREFUSED'') None))
      \<lparr>headers = [], req_method = ''POST'', originalUrl = Some ''/api/v1/mcp/tools/execute'',
       url = ''/tools/execute'', ip = None, body = JObj [], requestId = None, startTime = None\<rparr>) = []
   \<and> reply_status (respond False ''t'' 
        \<lparr>headers = [], req_method = ''POST'', originalUrl = Some ''/api/v1/mcp/tools/execute'',
         url = ''/tools/execute'', ip = None, body = JObj [], requestId = None, startTime = None\<rparr>
        (rr_end (tools_execute (\<lambda>c. Rejected (AxiosError ''connect ECONNREFUSED'' (Some ''ECONNREFUSED'') None))
        \<lparr>headers = [], req_method = ''POST'', originalUrl = Some ''/api/v1/mcp/tools/execute'',
         url = ''/tools/execute'', ip = None, body = JObj [], requestId = None, startTime = None\<rparr>))) = 400
   \<and> reply_status (respond False ''t''
        \<lparr>headers = [], req_method = ''POST'', originalUrl = Some ''/api/v1/mcp/tools/execute'',
         url = ''/tools/execute'', ip = None, body = JObj [(''tool_name'', JStr ''score_pitch'')],
         requestId = None, startTime = None\<rparr>
        (rr_end (tools_execute (\<lambda>c. Rejected (AxiosError ''connect ECONNREFUSED'' (Some ''ECONNREFUSED'') None))
        \<lparr>headers = [], req_method = ''POST'', originalUrl = Some ''/api/v1/mcp/tools/execute'',
         url = ''/tools/execute'', ip = None, body = JObj [(''tool_name'', JStr ''score_pitch'')],
         requestId = None, startTime = None\<rparr>))) = 503
   \<and> respond False ''t''
        \<lparr>headers = [], req_method = ''GET'', originalUrl = Some ''/api/v1/mcp/tools'',
         url = ''/tools'', ip = None, body = JObj [], requestId = None, startTime = None\<rparr>
        (rr_end (tools_get (\<lambda>c. Rejected (AxiosError ''connect ECONNREFUSED'' (Some ''ECONNREFUSED'') None))
        \<lparr>headers = [], req_method = ''GET'', originalUrl = Some ''/api/v1/mcp/tools'',
         url = ''/tools'', ip = None, body = JObj [], requestId = None, startTime = None\<rparr>))
      = JsonReply 200 (JArr STATIC_TOOLS)"
proof -
  let ?mcp = "\<lambda>c::mcp_request. Rejected (AxiosError ''connect ECONNREFUSED'' (Some ''ECONNREFUSED'') None)"
  let ?r0 = "\<lparr>headers = [], req_method = ''POST'', originalUrl = Some ''/api/v1/mcp/tools/execute'',
       url = ''/tools/execute'', ip = None, body = JObj [], requestId = None, startTime = None\<rparr>"
  let ?r1 = "\<lparr>headers = [], req_method = ''POST'', originalUrl = Some ''/api/v1/mcp/tools/execute'',
         url = ''/tools/execute'', ip = None, body = JObj [(''tool_name'', JStr ''score_pitch'')],
         requestId = None, startTime = None\<rparr>"
  let ?r2 = "\<lparr>headers = [], req_method = ''GET'', originalUrl = Some ''/api/v1/mcp/tools'',
         url = ''/tools'', ip = None, body = JObj [], requestId = None, startTime = None\<rparr>"
  note t0 = C9_mcp_routes [of False "''t''" ?r0 ?mcp]
  note t1 = C9_mcp_routes [of False "''t''" ?r1 ?mcp _ "''connect ECONNREFUSED''" None]
  note t2 = C9_mcp_routes [of False "''t''" ?r2 ?mcp
      "AxiosError ''connect ECONNREFUSED'' (Some ''ECONNREFUSED'') None"]
  have a: "\<not> truthy (get_prop (body ?r0) ''tool_name'')" by simp
  have b: "truthy (get_prop (body ?r1) ''tool_name'')
      \<and> (\<forall>c \<in> set (rr_calls (tools_execute ?mcp ?r1)). ?mcp c
        = Rejected (AxiosError ''connect ECONNREFUSED'' (Some ''ECONNREFUSED'') None))" by simp
  have d: "?mcp tools_list_request
        = Rejected (AxiosError ''connect ECONNREFUSED'' (Some ''ECONNREFUSED'') None)" by simp
  have v: "rr_calls (tools_execute ?mcp ?r0) = []
      \<and> reply_status (respond False ''t'' ?r0 (rr_end (tools_execute ?mcp ?r0))) = 400
      \<and> reply_code (respond False ''t'' ?r0 (rr_end (tools_execute ?mcp ?r0))) = Some ''VALIDATION_ERROR''"
    by (rule mp [OF t0 [THEN conjunct2, THEN conjunct2, THEN conjunct2, THEN conjunct2, THEN conjunct1] a])
  have r: "reply_status (respond False ''t'' ?r1 (rr_end (tools_execute ?mcp ?r1))) = 503
      \<and> reply_code (respond False ''t'' ?r1 (rr_end (tools_execute ?mcp ?r1))) = Some ''MCP_UNAVAILABLE''"
    by (rule mp [OF t1 [THEN conjunct2, THEN conjunct2, THEN conjunct2, THEN conjunct2,
          THEN conjunct2, THEN conjunct2, THEN conjunct1] b])
  have f: "respond False ''t'' ?r2 (rr_end (tools_get ?mcp ?r2)) = JsonReply 200 (JArr STATIC_TOOLS)
      \<and> respond False ''t'' ?r2 (rr_end (tools_post ?mcp ?r2)) = JsonReply 200 (JArr STATIC_TOOLS)"
    by (rule mp [OF t2 [THEN conjunct2, THEN conjunct2, THEN conjunct1] d])
  from v have v1: "rr_calls (tools_execute ?mcp ?r0) = []" by (rule conjunct1)
  from v have v2: "reply_status (respond False ''t'' ?r0 (rr_end (tools_execute ?mcp ?r0))) = 400"
    by (rule conjunct1 [OF conjunct2])
  from r have r1: "reply_status (respond False ''t'' ?r1 (rr_end (tools_execute ?mcp ?r1))) = 503"
    by (rule conjunct1)
  from f have f1: "respond False ''t'' ?r2 (rr_end (tools_get ?mcp ?r2)) = JsonReply 200 (JArr STATIC_TOOLS)"
    by (rule conjunct1)
  show ?thesis
    by (intro conjI) (rule v1, rule v2, rule r1, rule f1)
qed


section \<open>WebSocket broadcast: recipients and completion\<close>





section \<open>Orchestration trigger: when the handler answers\<close>












section \<open>The two implementations of the agents and MCP routes compared\<close>




section \<open>A2A message types\<close>



section \<open>Score scales\<close>




section \<open>Overall score and dimension scores\<close>





section \<open>Quality gate: threshold, refinement and the best pitch\<close>

declare quality_gate.simps [simp del]

lemma better_invariant:
  fixes ov :: "nat \<Rightarrow> rat"
  assumes ov: "\<And>j. ov j = sc_overall (score (c j))"
    and bst: "(i = 0 \<and> best = None) \<or>
       (\<exists>k<i. best = Some (c k, score (c k)) \<and> (\<forall>j<i. ov j \<le> ov k) \<and> (\<forall>j<i. k < j \<longrightarrow> ov j < ov k))"
  shows "\<exists>k<Suc i. better best (c i, score (c i)) = (c k, score (c k))
      \<and> (\<forall>j<Suc i. ov j \<le> ov k) \<and> (\<forall>j<Suc i. k < j \<longrightarrow> ov j < ov k)"
  using bst
proof (elim disjE conjE exE)
  assume "i = 0" and "best = None"
  then show ?thesis by auto
next
  fix k
  assume k: "k < i" and b: "best = Some (c k, score (c k))"
    and mx: "\<forall>j<i. ov j \<le> ov k" and lt: "\<forall>j<i. k < j \<longrightarrow> ov j < ov k"
  show ?thesis
  proof (cases "ov k \<le> ov i")
    case True
    have "better best (c i, score (c i)) = (c i, score (c i))"
      using True b ov by simp
    moreover have "\<forall>j<Suc i. ov j \<le> ov i"
      using mx True by (auto simp: less_Suc_eq)
    ultimately show ?thesis by auto
  next
    case False
    have "better best (c i, score (c i)) = (c k, score (c k))"
      using False b ov by simp
    moreover have "\<forall>j<Suc i. ov j \<le> ov k"
      using mx False by (auto simp: less_Suc_eq)
    moreover have "\<forall>j<Suc i. k < j \<longrightarrow> ov j < ov k"
      using lt False by (auto simp: less_Suc_eq)
    ultimately show ?thesis using k by (intro exI[of _ k]) simp
  qed
qed

lemma quality_gate_from:
  fixes cfg score refine draft
  defines "c \<equiv> candidate score refine draft"
  defines "ov \<equiv> \<lambda>j. sc_overall (score (candidate score refine draft j))"
  assumes le: "int i \<le> maxIterations cfg"
    and below: "\<forall>j<i. ov j < scoreThreshold cfg"
    and bst: "(i = 0 \<and> best = None) \<or>
       (\<exists>k<i. best = Some (c k, score (c k)) \<and> (\<forall>j<i. ov j \<le> ov k) \<and> (\<forall>j<i. k < j \<longrightarrow> ov j < ov k))"
  shows "\<exists>k. int k \<le> maxIterations cfg
      \<and> quality_gate cfg score refine i (c i) best
          = \<lparr>terminal = Completed, final_pitch = Some (c k, score (c k)),
             refinements = (if scoreThreshold cfg \<le> ov k then k else nat (maxIterations cfg)),
             run_failure = None\<rparr>
      \<and> ((scoreThreshold cfg \<le> ov k \<and> (\<forall>j<k. ov j < scoreThreshold cfg))
          \<or> ((\<forall>j. int j \<le> maxIterations cfg \<longrightarrow> ov j < scoreThreshold cfg)
              \<and> (\<forall>j. int j \<le> maxIterations cfg \<longrightarrow> ov j \<le> ov k)
              \<and> (\<forall>j. int j \<le> maxIterations cfg \<longrightarrow> k < j \<longrightarrow> ov j < ov k)))"
  using le below bst
proof (induction "nat (maxIterations cfg) - i" arbitrary: i best)
  case 0
  then have iM: "int i = maxIterations cfg" by simp
  have ovc: "\<And>j. ov j = sc_overall (score (c j))" by (simp add: ov_def c_def)
  obtain k where k: "k < Suc i"
    and bk: "better best (c i, score (c i)) = (c k, score (c k))"
    and mx: "\<forall>j<Suc i. ov j \<le> ov k" and lt: "\<forall>j<Suc i. k < j \<longrightarrow> ov j < ov k"
    using better_invariant [of ov score c i best, OF ovc "0.prems"(3)] by blast
  show ?case
  proof (cases "scoreThreshold cfg \<le> ov i")
    case True
    have "quality_gate cfg score refine i (c i) best
        = \<lparr>terminal = Completed, final_pitch = Some (c i, score (c i)), refinements = i,
           run_failure = None\<rparr>"
      using True by (subst quality_gate.simps) (simp add: Let_def ovc)
    then show ?thesis
      using True "0.prems"(1,2) by (intro exI[of _ i]) simp
  next
    case False
    have conv: "\<And>j. int j \<le> maxIterations cfg \<Longrightarrow> j < Suc i"
      using iM by simp
    have below': "\<forall>j<Suc i. ov j < scoreThreshold cfg"
      using False "0.prems"(2) by (auto simp: less_Suc_eq)
    have all: "\<forall>j. int j \<le> maxIterations cfg \<longrightarrow> ov j < scoreThreshold cfg"
      using below' conv by blast
    have nk: "\<not> scoreThreshold cfg \<le> ov k" using below' k by force
    have "quality_gate cfg score refine i (c i) best
        = \<lparr>terminal = Completed, final_pitch = Some (c k, score (c k)), refinements = i,
           run_failure = None\<rparr>"
      using False iM bk by (subst quality_gate.simps) (simp add: Let_def ovc)
    moreover have "i = nat (maxIterations cfg)" using iM by simp
    moreover have "int k \<le> maxIterations cfg" using k iM by simp
    moreover have "\<forall>j. int j \<le> maxIterations cfg \<longrightarrow> ov j \<le> ov k"
      using mx conv by blast
    moreover have "\<forall>j. int j \<le> maxIterations cfg \<longrightarrow> k < j \<longrightarrow> ov j < ov k"
      using lt conv by blast
    ultimately show ?thesis
      using all nk by (intro exI[of _ k]) simp
  qed
next
  case (Suc n)
  then have iM: "int i < maxIterations cfg" by simp
  have ovc: "\<And>j. ov j = sc_overall (score (c j))" by (simp add: ov_def c_def)
  obtain k where k: "k < Suc i"
    and bk: "better best (c i, score (c i)) = (c k, score (c k))"
    and mx: "\<forall>j<Suc i. ov j \<le> ov k" and lt: "\<forall>j<Suc i. k < j \<longrightarrow> ov j < ov k"
    using better_invariant [of ov score c i best, OF ovc Suc.prems(3)] by blast
  show ?case
  proof (cases "scoreThreshold cfg \<le> ov i")
    case True
    have "quality_gate cfg score refine i (c i) best
        = \<lparr>terminal = Completed, final_pitch = Some (c i, score (c i)), refinements = i,
           run_failure = None\<rparr>"
      using True by (subst quality_gate.simps) (simp add: Let_def ovc)
    then show ?thesis
      using True Suc.prems(1,2) by (intro exI[of _ i]) simp
  next
    case False
    have step: "quality_gate cfg score refine i (c i) best
        = quality_gate cfg score refine (Suc i) (c (Suc i)) (Some (c k, score (c k)))"
      using False iM bk by (subst quality_gate.simps) (simp add: Let_def ovc c_def)
    have n: "n = nat (maxIterations cfg) - Suc i" using Suc.hyps(2) by simp
    have le': "int (Suc i) \<le> maxIterations cfg" using iM by simp
    have below': "\<forall>j<Suc i. ov j < scoreThreshold cfg"
      using False Suc.prems(2) by (auto simp: less_Suc_eq)
    have bst': "(Suc i = 0 \<and> Some (c k, score (c k)) = None) \<or>
       (\<exists>k'<Suc i. Some (c k, score (c k)) = Some (c k', score (c k'))
          \<and> (\<forall>j<Suc i. ov j \<le> ov k') \<and> (\<forall>j<Suc i. k' < j \<longrightarrow> ov j < ov k'))"
      using k mx lt by blast
    show ?thesis
      unfolding step by (rule Suc.hyps(1) [OF n le' below' bst'])
  qed
qed


lemma candidate_version: "version (candidate score refine draft i) = Suc i"
  by (induction i) (simp_all add: refined_def)

text \<open>
  C1, for the quality gate as the specification describes it: every run with a
  configuration in range completes. Either some candidate scores at or above the
  threshold: then the run finalizes the first such candidate \<open>k\<close>, every candidate before
  it scored below the threshold and was refined with its Score into the next candidate
  (a new pitch version), and \<open>k\<close> refinements were made, at most \<open>maxIterations\<close>. Or
  all candidates up to \<open>maxIterations\<close> score below the threshold: then the run still
  completes, after \<open>maxIterations\<close> refinements, and finalizes a candidate whose score no
  other candidate exceeds and which every later candidate scores strictly below, that is
  the best-scoring pitch seen, the later one on exact ties.
\<close>

theorem C1_quality_gate:
  fixes cfg score refine draft
  defines "c \<equiv> candidate score refine draft"
  defines "ov \<equiv> \<lambda>j. sc_overall (score (candidate score refine draft j))"
  assumes "0 < scoreThreshold cfg" and "scoreThreshold cfg \<le> 1" and "0 \<le> maxIterations cfg"
  shows "\<exists>k. int k \<le> maxIterations cfg
      \<and> Run cfg score refine draft
          = \<lparr>terminal = Completed, final_pitch = Some (c k, score (c k)),
             refinements = (if scoreThreshold cfg \<le> ov k then k else nat (maxIterations cfg)),
             run_failure = None\<rparr>
      \<and> version (c k) = Suc k
      \<and> ((scoreThreshold cfg \<le> ov k \<and> (\<forall>j<k. ov j < scoreThreshold cfg))
          \<or> ((\<forall>j. int j \<le> maxIterations cfg \<longrightarrow> ov j < scoreThreshold cfg)
              \<and> (\<forall>j. int j \<le> maxIterations cfg \<longrightarrow> ov j \<le> ov k)
              \<and> (\<forall>j. int j \<le> maxIterations cfg \<longrightarrow> k < j \<longrightarrow> ov j < ov k)))"
proof -
  let ?c = "candidate score refine draft"
  let ?ov = "\<lambda>j. sc_overall (score (candidate score refine draft j))"
  have run: "Run cfg score refine draft = quality_gate cfg score refine 0 (?c 0) None"
    using assms(3-5) by (simp add: Run_def)
  have le: "int 0 \<le> maxIterations cfg" using assms(5) by simp
  have below: "\<forall>j<0::nat. ?ov j < scoreThreshold cfg" by simp
  have bst: "((0::nat) = 0 \<and> (None :: (pitch \<times> Score) option) = None) \<or>
       (\<exists>k<0::nat. None = Some (?c k, score (?c k)) \<and> (\<forall>j<0. ?ov j \<le> ?ov k)
          \<and> (\<forall>j<0. k < j \<longrightarrow> ?ov j < ?ov k))"
    by simp
  obtain k where k: "int k \<le> maxIterations cfg"
    and r: "quality_gate cfg score refine 0 (?c 0) None
          = \<lparr>terminal = Completed, final_pitch = Some (?c k, score (?c k)),
             refinements = (if scoreThreshold cfg \<le> ?ov k then k else nat (maxIterations cfg)),
             run_failure = None\<rparr>"
    and d: "(scoreThreshold cfg \<le> ?ov k \<and> (\<forall>j<k. ?ov j < scoreThreshold cfg))
          \<or> ((\<forall>j. int j \<le> maxIterations cfg \<longrightarrow> ?ov j < scoreThreshold cfg)
              \<and> (\<forall>j. int j \<le> maxIterations cfg \<longrightarrow> ?ov j \<le> ?ov k)
              \<and> (\<forall>j. int j \<le> maxIterations cfg \<longrightarrow> k < j \<longrightarrow> ?ov j < ?ov k))"
    using quality_gate_from [OF le below bst] by blast
  have v: "version (?c k) = Suc k" by (simp add: candidate_version)
  show ?thesis
    unfolding c_def ov_def run using k r d v by (intro exI[of _ k]) simp
qed

text \<open>
  Scenario C of the specification, a concrete run: every score stays at 0.3, the threshold
  is 0.7 and \<open>maxIterations\<close> is 3. The run completes after 3 refinements and returns
  the fourth candidate, version 4, the latest of the four equally scored pitches.
\<close>

theorem C1_quality_gate_witness:
  "terminal (Run \<lparr>scoreThreshold = 7/10, maxIterations = 3\<rparr>
      (\<lambda>p. \<lparr>sc_overall = 3/10, sc_feedback = ''be more specific'', sc_suggestions = []\<rparr>)
      (\<lambda>p s. content p @ '' (revised)'') ''Dear customer'') = Completed
   \<and> refinements (Run \<lparr>scoreThreshold = 7/10, maxIterations = 3\<rparr>
      (\<lambda>p. \<lparr>sc_overall = 3/10, sc_feedback = ''be more specific'', sc_suggestions = []\<rparr>)
      (\<lambda>p s. content p @ '' (revised)'') ''Dear customer'') = 3
   \<and> map_option (\<lambda>f. version (fst f)) (final_pitch (Run \<lparr>scoreThreshold = 7/10, maxIterations = 3\<rparr>
      (\<lambda>p. \<lparr>sc_overall = 3/10, sc_feedback = ''be more specific'', sc_suggestions = []\<rparr>)
      (\<lambda>p s. content p @ '' (revised)'') ''Dear customer'')) = Some 4"
proof -
  let ?cfg = "\<lparr>scoreThreshold = 7/10, maxIterations = 3\<rparr>"
  let ?score = "\<lambda>p::pitch. \<lparr>sc_overall = 3/10, sc_feedback = ''be more specific'', sc_suggestions = []\<rparr>"
  let ?refine = "\<lambda>(p::pitch) (s::Score). content p @ '' (revised)''"
  let ?c = "candidate ?score ?refine ''Dear customer''"
  have a: "0 < scoreThreshold ?cfg" and b: "scoreThreshold ?cfg \<le> 1" and m: "0 \<le> maxIterations ?cfg"
    by simp_all
  obtain k where k: "int k \<le> maxIterations ?cfg"
    and r: "Run ?cfg ?score ?refine ''Dear customer''
          = \<lparr>terminal = Completed, final_pitch = Some (?c k, ?score (?c k)),
             refinements = (if scoreThreshold ?cfg \<le> sc_overall (?score (?c k)) then k
                            else nat (maxIterations ?cfg)),
             run_failure = None\<rparr>"
    and v: "version (?c k) = Suc k"
    and d: "(scoreThreshold ?cfg \<le> sc_overall (?score (?c k))
              \<and> (\<forall>j<k. sc_overall (?score (?c j)) < scoreThreshold ?cfg))
          \<or> ((\<forall>j. int j \<le> maxIterations ?cfg \<longrightarrow> sc_overall (?score (?c j)) < scoreThreshold ?cfg)
              \<and> (\<forall>j. int j \<le> maxIterations ?cfg \<longrightarrow> sc_overall (?score (?c j)) \<le> sc_overall (?score (?c k)))
              \<and> (\<forall>j. int j \<le> maxIterations ?cfg \<longrightarrow> k < j
                    \<longrightarrow> sc_overall (?score (?c j)) < sc_overall (?score (?c k))))"
    using C1_quality_gate [OF a b m, of ?score ?refine "''Dear customer''"] by blast
  have "\<not> k < 3"
  proof
    assume "k < 3"
    with d have "sc_overall (?score (?c 3)) < sc_overall (?score (?c k))" by auto
    then show False by simp
  qed
  with k have k3: "k = 3" by simp
  show ?thesis
    using r v unfolding k3 by simp
qed

end
